theory Spec2Isabelle
  imports Complex_Main
begin

section \<open>Data model of \<open>src/server.ts\<close>\<close>

text \<open>
  The relay keeps two module-level maps, \<open>channelMessageBuffers\<close> and
  \<open>channelBatchTimers\<close>, and talks to three collaborators: the chat platform
  (\<open>sendTyping\<close>, \<open>messages.fetch\<close>, \<open>reply\<close>), the agent backend
  (\<open>sendMessage\<close> of \<open>./messages\<close>) and the runtime's timer table
  (\<open>setTimeout\<close>, \<open>clearTimeout\<close>). The maps and the timer table are an explicit
  state; every awaited collaborator call is an effect in a log whose outcome is read
  from an environment record, so that a rejected promise is a branch of the model.

  Strings are lists of code units, as \<open>String.length\<close> counts them.
\<close>

text \<open>\<open>MessageType\<close> is imported from \<open>./messages\<close>; the handler uses these four members.\<close>

datatype MessageType = DM | MENTION | REPLY | GENERIC

text \<open>The value a rejected promise or a throw carries.\<close>

datatype error = PlatformError | BackendError

text \<open>\<open>message.reference\<close>: present on a reply; its \<open>messageId\<close> may be undefined.\<close>

record message_reference =
  messageId :: "string option"

text \<open>
  The fields of a discord.js \<open>Message\<close> the file reads. \<open>in_guild\<close> is
  \<open>message.guild !== null\<close>; \<open>mentions_client\<close> is
  \<open>message.mentions.has(client.user || '')\<close>; \<open>channel_name\<close> is \<open>None\<close>
  where the channel object has no \<open>name\<close> property.
\<close>

record message =
  channel_id :: string
  channel_name :: "string option"
  author_id :: string
  author_username :: string
  author_bot :: bool
  content :: string
  in_guild :: bool
  mentions_client :: bool
  reference :: "message_reference option"

text \<open>What \<open>message.channel.messages.fetch\<close> resolves to, as far as it is read.\<close>

record fetched_message =
  original_author_id :: string
  original_content :: string

record BatchedMessage =
  message :: message
  messageType :: MessageType
  timestamp :: int

text \<open>
  The constants read from the process environment (lines 8 to 21) and the identity of
  the logged-in account, \<open>client.user?.id\<close>. A number read by \<open>parseInt\<close> is
  \<open>None\<close> when it is \<open>NaN\<close>.
\<close>

record config =
  RESPOND_TO_DMS :: bool
  RESPOND_TO_MENTIONS :: bool
  RESPOND_TO_BOTS :: bool
  RESPOND_TO_GENERIC :: bool
  CHANNEL_ID :: "string option"
  RESPONSE_CHANNEL_ID :: "string option"
  ENABLE_TIMER :: bool
  TIMER_INTERVAL_MINUTES :: "int option"
  MESSAGE_BATCH_ENABLED :: bool
  MESSAGE_BATCH_SIZE :: "int option"
  MESSAGE_BATCH_TIMEOUT_MS :: "int option"
  client_user_id :: "string option"

definition MESSAGE_REPLY_TRUNCATE_LENGTH :: int where
  "MESSAGE_REPLY_TRUNCATE_LENGTH = 100"

text \<open>Truthiness of an optional string: \<open>undefined\<close> and \<open>''\<close> are falsy.\<close>

definition truthy :: "string option \<Rightarrow> bool" where
  "truthy v = (case v of None \<Rightarrow> False | Some x \<Rightarrow> x \<noteq> [])"

text \<open>\<open>n >= limit\<close> on numbers: every comparison with \<open>NaN\<close> is false.\<close>

definition js_ge :: "nat \<Rightarrow> int option \<Rightarrow> bool" where
  "js_ge n limit = (case limit of None \<Rightarrow> False | Some k \<Rightarrow> k \<le> int n)"

subsection \<open>\<open>truncateMessage\<close> (lines 23 to 28)\<close>

text \<open>\<open>substring(0, e)\<close> treats a negative end as 0, as \<open>nat\<close> does.\<close>

definition truncateMessage :: "string \<Rightarrow> int \<Rightarrow> string" where
  "truncateMessage msg maxLength =
     (if int (length msg) > maxLength
      then take (nat (maxLength - 3)) msg @ ''...''
      else msg)"

subsection \<open>\<open>shouldRespondInChannel\<close> (lines 161 to 168)\<close>

definition shouldRespondInChannel :: "config \<Rightarrow> string \<Rightarrow> bool" where
  "shouldRespondInChannel cfg channelId =
     (if \<not> truthy (RESPONSE_CHANNEL_ID cfg) then True
      else Some channelId = RESPONSE_CHANNEL_ID cfg)"

subsection \<open>Rendering a batch (lines 78 to 102)\<close>

text \<open>A number inside a template literal: its decimal digits.\<close>

definition digit_char :: "nat \<Rightarrow> char" where
  "digit_char d = ''0123456789'' ! d"

fun string_of_nat :: "nat \<Rightarrow> string" where
  "string_of_nat n =
     (if n < 10 then [digit_char n]
      else string_of_nat (n div 10) @ [digit_char (n mod 10)])"

declare string_of_nat.simps [simp del]

definition newline :: string where
  "newline = [CHR 0x0A]"

fun join :: "string \<Rightarrow> string list \<Rightarrow> string" where
  "join sep [] = []"
| "join sep [x] = x"
| "join sep (x # y # ys) = x @ sep @ join sep (y # ys)"

definition line_prefix :: "BatchedMessage \<Rightarrow> string" where
  "line_prefix bm =
     (let username = author_username (message bm);
          userId = author_id (message bm)
      in if messageType bm = MENTION
           then ''['' @ username @ '' (id='' @ userId @ '') mentioned you]''
         else if messageType bm = REPLY
           then ''['' @ username @ '' (id='' @ userId @ '') replied to you]''
         else if messageType bm = DM
           then ''['' @ username @ '' (id='' @ userId @ '') sent you a DM]''
         else ''['' @ username @ '' (id='' @ userId @ '')]'')"

definition format_line :: "nat \<Rightarrow> BatchedMessage \<Rightarrow> string" where
  "format_line idx bm =
     string_of_nat (idx + 1) @ ''. '' @ line_prefix bm @ '' '' @ content (message bm)"

definition batch_lines :: "BatchedMessage list \<Rightarrow> string list" where
  "batch_lines buffer = map (\<lambda>(idx, bm). format_line idx bm) (enumerate 0 buffer)"

definition batchedContent :: "BatchedMessage list \<Rightarrow> string" where
  "batchedContent buffer = join newline (batch_lines buffer)"

definition channelName :: "message \<Rightarrow> string \<Rightarrow> string" where
  "channelName lastMessage channelId =
     (if truthy (channel_name lastMessage)
      then ''#'' @ (case channel_name lastMessage of Some n \<Rightarrow> n | None \<Rightarrow> [])
      else ''channel '' @ channelId)"

definition batchMessage :: "string \<Rightarrow> BatchedMessage list \<Rightarrow> message \<Rightarrow> string" where
  "batchMessage channelId buffer lastMessage =
     ''[Batch of '' @ string_of_nat (length buffer) @ '' messages from ''
       @ channelName lastMessage channelId @ '']'' @ newline @ batchedContent buffer"

section \<open>The batching engine\<close>

subsection \<open>State\<close>

text \<open>
  A timeout the runtime still holds: its handle, the channel its callback drains and
  the time it is due. \<open>setTimeout\<close> adds one, \<open>clearTimeout\<close> and firing remove
  it. A handle stays in \<open>channelBatchTimers\<close> until the code deletes it there.

  A buffer is an array shared by reference between the map and the local \<open>buffer\<close>
  of a running drain. After its backend call on line 108 a drain reads that local no
  more, so a map from channels to lists holds all the code can observe.
\<close>

record timeout_entry =
  t_handle :: nat
  t_channel :: string
  t_due :: int

record state =
  channelMessageBuffers :: "string \<rightharpoonup> BatchedMessage list"
  channelBatchTimers :: "string \<rightharpoonup> nat"
  timeouts :: "timeout_entry list"
  next_handle :: nat

definition initial_state :: state where
  "initial_state =
     \<lparr>channelMessageBuffers = Map.empty, channelBatchTimers = Map.empty,
      timeouts = [], next_handle = 0\<rparr>"

text \<open>
  The runtime's part, as Node documents it: a delay that is not a number from 1 to
  \<open>2^31 - 1\<close> is replaced by 1; the timeout is due the delay after the call.
\<close>

definition timeout_delay :: "int option \<Rightarrow> int" where
  "timeout_delay d =
     (case d of None \<Rightarrow> 1
      | Some ms \<Rightarrow> if 1 \<le> ms \<and> ms \<le> 2147483647 then ms else 1)"

definition clearTimeout :: "nat \<Rightarrow> state \<Rightarrow> state" where
  "clearTimeout h s = s\<lparr>timeouts := filter (\<lambda>e. t_handle e \<noteq> h) (timeouts s)\<rparr>"

definition setTimeout :: "string \<Rightarrow> int \<Rightarrow> int option \<Rightarrow> state \<Rightarrow> nat \<times> state" where
  "setTimeout channelId now d s =
     (next_handle s,
      s\<lparr>timeouts := timeouts s @
           [\<lparr>t_handle = next_handle s, t_channel = channelId,
             t_due = now + timeout_delay d\<rparr>],
        next_handle := Suc (next_handle s)\<rparr>)"

text \<open>The timeouts still pending whose callback drains the given channel.\<close>

definition pending_for :: "state \<Rightarrow> string \<Rightarrow> timeout_entry list" where
  "pending_for s channelId = filter (\<lambda>e. t_channel e = channelId) (timeouts s)"

subsection \<open>The call to the agent backend\<close>

text \<open>
  The arguments of \<open>sendMessage(message, messageType, canRespond, customContent?)\<close>:
  the fourth is the consolidated payload, absent on the immediate path.
\<close>

record backend_call =
  call_message :: message
  call_messageType :: MessageType
  call_canRespond :: bool
  call_customContent :: "string option"

datatype effect =
    SendTyping string
  | FetchMessage string
  | SendMessage backend_call
  | Reply message string
  | LogError error

text \<open>How the awaited collaborator calls of one run settle.\<close>

record outcomes =
  typing_result :: "error option"
  fetch_result :: "error + fetched_message"
  backend_result :: "error + string"
  reply_result :: "error option"

text \<open>
  Lines 181 to 187, 108 to 115 and 334 to 339 are the same statements: await the backend,
  then reply when the answer is not empty and the channel may be answered. The result is
  the effects after the backend call and the error thrown, if any.
\<close>

definition await_and_reply :: "message \<Rightarrow> bool \<Rightarrow> outcomes \<Rightarrow> effect list \<times> error option" where
  "await_and_reply target canRespond env =
     (case backend_result env of
        Inl e \<Rightarrow> ([], Some e)
      | Inr msg \<Rightarrow>
          if msg \<noteq> [] \<and> canRespond
          then ([Reply target msg], reply_result env)
          else ([], None))"

subsection \<open>\<open>drainMessageBatch\<close> (lines 58 to 122)\<close>

text \<open>
  An async function runs up to its first \<open>await\<close> inside the caller's turn.
  \<open>drain_begin\<close> is that part: everything up to and including the call of
  \<open>sendMessage\<close> on line 108. It returns the frame suspended at the \<open>await\<close>, or
  \<open>None\<close> when the function returned on line 68. \<open>drain_end\<close> is the rest, run when
  the backend call has settled: the reply, the \<open>catch\<close> and the \<open>delete\<close> of line
  121. Other handlers and timer callbacks can run between the two. The \<open>await\<close> of
  the reply on line 111 is a second such point; \<open>drain_end\<close> runs through it, which
  leaves those interleavings out.
\<close>

record drain_frame =
  f_channelId :: string
  f_lastMessage :: message
  f_canRespond :: bool
  f_call :: backend_call

text \<open>Lines 60 to 65: the pending timeout of the channel is cleared and forgotten.\<close>

definition cancel_batch_timer :: "string \<Rightarrow> state \<Rightarrow> state" where
  "cancel_batch_timer channelId s =
     (case channelBatchTimers s channelId of
        None \<Rightarrow> s
      | Some h \<Rightarrow>
          (clearTimeout h s)
            \<lparr>channelBatchTimers := (channelBatchTimers s)(channelId := None)\<rparr>)"

text \<open>
  Lines 74 to 108 for a buffer that is not empty: the locals the rest of the function
  reads, and the arguments of the backend call.
\<close>

definition suspended_drain :: "config \<Rightarrow> string \<Rightarrow> BatchedMessage list \<Rightarrow> drain_frame" where
  "suspended_drain cfg channelId buffer =
     (let lastMessage = message (last buffer);
          canRespond = shouldRespondInChannel cfg channelId
      in \<lparr>f_channelId = channelId, f_lastMessage = lastMessage,
          f_canRespond = canRespond,
          f_call = \<lparr>call_message = lastMessage,
                    call_messageType = messageType (last buffer),
                    call_canRespond = canRespond,
                    call_customContent =
                      Some (batchMessage channelId buffer lastMessage)\<rparr>\<rparr>)"

definition drain_begin :: "config \<Rightarrow> string \<Rightarrow> state \<Rightarrow> state \<times> drain_frame option" where
  "drain_begin cfg channelId s =
     (let buffer = channelMessageBuffers s channelId;
          s1 = cancel_batch_timer channelId s
      in case buffer of
           None \<Rightarrow> (s1, None)
         | Some buf \<Rightarrow>
             if buf = [] then (s1, None)
             else (s1, Some (suspended_drain cfg channelId buf)))"

definition drain_end :: "drain_frame \<Rightarrow> outcomes \<Rightarrow> state \<Rightarrow> state \<times> effect list" where
  "drain_end f env s =
     (let (effs, thrown) = await_and_reply (f_lastMessage f) (f_canRespond f) env;
          logged = (case thrown of None \<Rightarrow> effs | Some e \<Rightarrow> effs @ [LogError e])
      in (s\<lparr>channelMessageBuffers := (channelMessageBuffers s)(f_channelId f := None)\<rparr>,
          logged))"

subsection \<open>\<open>addMessageToBatch\<close> (lines 124 to 158)\<close>

text \<open>The buffer of a channel after lines 127 to 131: a missing one is created empty.\<close>

definition buffer_of :: "state \<Rightarrow> string \<Rightarrow> BatchedMessage list" where
  "buffer_of s channelId =
     (case channelMessageBuffers s channelId of None \<Rightarrow> [] | Some b \<Rightarrow> b)"

text \<open>
  \<open>now\<close> is \<open>Date.now()\<close>. The call of \<open>drainMessageBatch\<close> on line 143 is not
  awaited: its first part runs before \<open>addMessageToBatch\<close> returns, and the frame it
  leaves is returned with the state.
\<close>

definition addMessageToBatch ::
    "config \<Rightarrow> int \<Rightarrow> message \<Rightarrow> MessageType \<Rightarrow> state \<Rightarrow> state \<times> drain_frame option" where
  "addMessageToBatch cfg now m mt s =
     (let channelId = channel_id m;
          buffer = buffer_of s channelId @ [\<lparr>message = m, messageType = mt, timestamp = now\<rparr>];
          s1 = s\<lparr>channelMessageBuffers := (channelMessageBuffers s)(channelId \<mapsto> buffer)\<rparr>
      in if js_ge (length buffer) (MESSAGE_BATCH_SIZE cfg)
         then drain_begin cfg channelId s1
         else
           let s2 = (case channelBatchTimers s1 channelId of
                       None \<Rightarrow> s1
                     | Some h \<Rightarrow> clearTimeout h s1);
               (h', s3) = setTimeout channelId now (MESSAGE_BATCH_TIMEOUT_MS cfg) s2
           in (s3\<lparr>channelBatchTimers := (channelBatchTimers s3)(channelId \<mapsto> h')\<rparr>, None))"

text \<open>
  The callback of line 152, run by the runtime for a pending timeout that is due: the
  timeout leaves the runtime's table and the drain starts.
\<close>

definition timer_fire :: "config \<Rightarrow> int \<Rightarrow> nat \<Rightarrow> state \<Rightarrow> (state \<times> drain_frame option) option" where
  "timer_fire cfg now h s =
     (case filter (\<lambda>e. t_handle e = h) (timeouts s) of
        [] \<Rightarrow> None
      | e # _ \<Rightarrow>
          if t_due e \<le> now
          then Some (drain_begin cfg (t_channel e) (clearTimeout h s))
          else None)"

section \<open>The message handler\<close>

text \<open>
  What one run of a handler did: the state it left, the collaborator calls it made in
  order, the label it assigned (\<open>None\<close> when it returned before classifying), the
  last value of the local \<open>msgContent\<close> (\<open>None\<close> when the run never reached line
  309), the drain frame it left suspended, and the error that escaped it, if any.
\<close>

record handler_result =
  r_state :: state
  r_effects :: "effect list"
  r_label :: "MessageType option"
  r_msgContent :: "string option"
  r_frame :: "drain_frame option"
  r_thrown :: "error option"

definition ignored :: "state \<Rightarrow> handler_result" where
  "ignored s =
     \<lparr>r_state = s, r_effects = [], r_label = None, r_msgContent = None,
      r_frame = None, r_thrown = None\<rparr>"

text \<open>The effects of an enqueue: the backend call of the drain it started, if any.\<close>

definition frame_effects :: "drain_frame option \<Rightarrow> effect list" where
  "frame_effects fr = (case fr of None \<Rightarrow> [] | Some f \<Rightarrow> [SendMessage (f_call f)])"

subsection \<open>\<open>processAndSendMessage\<close> (lines 171 to 191)\<close>

definition processAndSendMessage ::
    "config \<Rightarrow> outcomes \<Rightarrow> int \<Rightarrow> message \<Rightarrow> MessageType \<Rightarrow> state \<Rightarrow> handler_result" where
  "processAndSendMessage cfg env now m mt s =
     (if MESSAGE_BATCH_ENABLED cfg
      then
        let (s', fr) = addMessageToBatch cfg now m mt s
        in \<lparr>r_state = s', r_effects = frame_effects fr, r_label = Some mt,
            r_msgContent = None, r_frame = fr, r_thrown = None\<rparr>
      else
        let canRespond = shouldRespondInChannel cfg (channel_id m);
            call = \<lparr>call_message = m, call_messageType = mt,
                    call_canRespond = canRespond, call_customContent = None\<rparr>;
            (effs, thrown) = await_and_reply m canRespond env;
            logged = (case thrown of None \<Rightarrow> effs | Some e \<Rightarrow> effs @ [LogError e])
        in \<lparr>r_state = s, r_effects = SendMessage call # logged, r_label = Some mt,
            r_msgContent = None, r_frame = None, r_thrown = None\<rparr>)"

subsection \<open>The \<open>messageCreate\<close> handler (lines 259 to 349)\<close>

definition startsWith_bang :: "string \<Rightarrow> bool" where
  "startsWith_bang str = (case str of [] \<Rightarrow> False | c # _ \<Rightarrow> c = CHR ''!'')"

text \<open>
  Lines 309 to 325, after the fetch has resolved: the label and the local
  \<open>msgContent\<close> of a reply whose reference names a message.
\<close>

definition reply_label :: "config \<Rightarrow> message \<Rightarrow> fetched_message \<Rightarrow> MessageType \<times> string" where
  "reply_label cfg m originalMessage =
     (if Some (original_author_id originalMessage) = client_user_id cfg
      then (REPLY,
            ''[Replying to previous message: \"''
              @ truncateMessage (original_content originalMessage) MESSAGE_REPLY_TRUNCATE_LENGTH
              @ ''\"] '' @ content m)
      else (if mentions_client m then MENTION else GENERIC, content m))"

text \<open>Lines 327 to 340: what the mention branch does with the label it computed.\<close>

definition mention_dispatch ::
    "config \<Rightarrow> outcomes \<Rightarrow> int \<Rightarrow> message \<Rightarrow> bool \<Rightarrow> effect list \<Rightarrow> MessageType \<Rightarrow> string
      \<Rightarrow> state \<Rightarrow> handler_result" where
  "mention_dispatch cfg env now m canRespond before mt msgContent s =
     (if MESSAGE_BATCH_ENABLED cfg
      then
        let (s', fr) = addMessageToBatch cfg now m mt s
        in \<lparr>r_state = s', r_effects = before @ frame_effects fr, r_label = Some mt,
            r_msgContent = Some msgContent, r_frame = fr, r_thrown = None\<rparr>
      else
        let call = \<lparr>call_message = m, call_messageType = mt,
                    call_canRespond = canRespond, call_customContent = None\<rparr>;
            (effs, thrown) = await_and_reply m canRespond env
        in \<lparr>r_state = s, r_effects = before @ SendMessage call # effs, r_label = Some mt,
            r_msgContent = Some msgContent, r_frame = None, r_thrown = thrown\<rparr>)"

text \<open>Lines 296 to 341. No statement of the branch is inside a \<open>try\<close>.\<close>

definition mention_branch ::
    "config \<Rightarrow> outcomes \<Rightarrow> int \<Rightarrow> message \<Rightarrow> state \<Rightarrow> handler_result" where
  "mention_branch cfg env now m s =
     (let canRespond = shouldRespondInChannel cfg (channel_id m);
          typing = (if canRespond then [SendTyping (channel_id m)] else [])
      in if canRespond \<and> typing_result env \<noteq> None
         then \<lparr>r_state = s, r_effects = typing, r_label = None, r_msgContent = None,
               r_frame = None, r_thrown = typing_result env\<rparr>
         else
           case reference m of
             None \<Rightarrow> mention_dispatch cfg env now m canRespond typing MENTION (content m) s
           | Some ref \<Rightarrow>
               if \<not> truthy (messageId ref)
               then mention_dispatch cfg env now m canRespond typing MENTION (content m) s
               else
                 let fetch = typing @
                       [FetchMessage (case messageId ref of Some i \<Rightarrow> i | None \<Rightarrow> [])]
                 in case fetch_result env of
                      Inl e \<Rightarrow>
                        \<lparr>r_state = s, r_effects = fetch, r_label = Some MENTION,
                          r_msgContent = Some (content m), r_frame = None,
                          r_thrown = Some e\<rparr>
                    | Inr originalMessage \<Rightarrow>
                        let (mt, msgContent) = reply_label cfg m originalMessage
                        in mention_dispatch cfg env now m canRespond fetch mt msgContent s)"

definition messageCreate ::
    "config \<Rightarrow> outcomes \<Rightarrow> int \<Rightarrow> message \<Rightarrow> state \<Rightarrow> handler_result" where
  "messageCreate cfg env now m s =
     (if truthy (CHANNEL_ID cfg) \<and> Some (channel_id m) \<noteq> CHANNEL_ID cfg then ignored s
      else if Some (author_id m) = client_user_id cfg then ignored s
      else if author_bot m \<and> \<not> RESPOND_TO_BOTS cfg then ignored s
      else if startsWith_bang (content m) then ignored s
      else if \<not> in_guild m
        then (if RESPOND_TO_DMS cfg then processAndSendMessage cfg env now m DM s
              else ignored s)
      else if RESPOND_TO_MENTIONS cfg \<and> (mentions_client m \<or> reference m \<noteq> None)
        then mention_branch cfg env now m s
      else if RESPOND_TO_GENERIC cfg then processAndSendMessage cfg env now m GENERIC s
      else ignored s)"

section \<open>The random event timer (lines 195 to 209)\<close>

subsection \<open>Numbers\<close>

text \<open>
  The arithmetic of lines 204 and 209 is that of IEEE 754 doubles. A number is
  \<open>NaN\<close>, an infinity, or a finite double, given by its real value; the two zeros are
  one value, since nothing here divides by zero or reads its sign. Every operation
  on finite numbers is the exact operation followed by \<open>to_double\<close>, the rounding to
  the nearest double with ties to the even significand.
\<close>

datatype number = NaN | PosInf | NegInf | Finite real

definition pow2 :: "int \<Rightarrow> real" where
  "pow2 e = (if 0 \<le> e then 2 ^ nat e else 1 / 2 ^ nat (- e))"

text \<open>
  The doubles next to a positive real \<open>a\<close> are the multiples of \<open>2^q\<close>, where
  \<open>2^(q+52) \<le> a < 2^(q+53)\<close>, and \<open>q\<close> is no less than \<open>-1074\<close> (the subnormal
  numbers) and no more than 971 (the largest binade). The search goes down from 0 for
  \<open>a < 2^53\<close> and up from 0 otherwise.
\<close>

function ulp_down :: "int \<Rightarrow> real \<Rightarrow> int" where
  "ulp_down q a = (if - 1074 < q \<and> a < pow2 (q + 52) then ulp_down (q - 1) a else q)"
  by pat_completeness auto
termination
  by (relation "measure (\<lambda>(q, a). nat (q + 1074))") auto

function ulp_up :: "int \<Rightarrow> real \<Rightarrow> int" where
  "ulp_up q a = (if q < 971 \<and> pow2 (q + 53) \<le> a then ulp_up (q + 1) a else q)"
  by pat_completeness auto
termination
  by (relation "measure (\<lambda>(q, a). nat (971 - q))") auto

declare ulp_down.simps [simp del]
declare ulp_up.simps [simp del]

definition ulp_exponent :: "real \<Rightarrow> int" where
  "ulp_exponent a = (if a < pow2 53 then ulp_down 0 a else ulp_up 0 a)"

text \<open>The nearest integer, a tie going to the even one.\<close>

definition round_even :: "real \<Rightarrow> int" where
  "round_even m =
     (let n = \<lfloor>m\<rfloor>; f = m - of_int n
      in if f < 1 / 2 then n
         else if 1 / 2 < f then n + 1
         else if even n then n else n + 1)"

text \<open>A magnitude that rounds to \<open>2^1024\<close> or more overflows to the infinity.\<close>

definition to_double :: "real \<Rightarrow> number" where
  "to_double x =
     (if x = 0 then Finite 0
      else
        let a = \<bar>x\<bar>;
            q = ulp_exponent a;
            v = of_int (round_even (a / pow2 q)) * pow2 q
        in if pow2 1024 \<le> v then (if 0 < x then PosInf else NegInf)
           else Finite (if 0 < x then v else - v))"

fun num_neg :: "number \<Rightarrow> number" where
  "num_neg NaN = NaN"
| "num_neg PosInf = NegInf"
| "num_neg NegInf = PosInf"
| "num_neg (Finite x) = Finite (- x)"

fun num_add :: "number \<Rightarrow> number \<Rightarrow> number" where
  "num_add NaN _ = NaN"
| "num_add _ NaN = NaN"
| "num_add PosInf NegInf = NaN"
| "num_add NegInf PosInf = NaN"
| "num_add PosInf _ = PosInf"
| "num_add _ PosInf = PosInf"
| "num_add NegInf _ = NegInf"
| "num_add _ NegInf = NegInf"
| "num_add (Finite x) (Finite y) = to_double (x + y)"

definition num_sub :: "number \<Rightarrow> number \<Rightarrow> number" where
  "num_sub a b = num_add a (num_neg b)"

text \<open>The sign of a number that is not \<open>NaN\<close>: 1, 0 or \<open>-1\<close>.\<close>

fun num_sign :: "number \<Rightarrow> int" where
  "num_sign NaN = 0"
| "num_sign PosInf = 1"
| "num_sign NegInf = - 1"
| "num_sign (Finite x) = (if 0 < x then 1 else if x < 0 then - 1 else 0)"

fun num_mul :: "number \<Rightarrow> number \<Rightarrow> number" where
  "num_mul NaN _ = NaN"
| "num_mul _ NaN = NaN"
| "num_mul (Finite x) (Finite y) = to_double (x * y)"
| "num_mul a b =
     (if num_sign a * num_sign b = 0 then NaN
      else if 0 < num_sign a * num_sign b then PosInf else NegInf)"

text \<open>\<open>Math.floor\<close>: the floor of a double is a double.\<close>

fun num_floor :: "number \<Rightarrow> number" where
  "num_floor (Finite x) = Finite (of_int \<lfloor>x\<rfloor>)"
| "num_floor a = a"

text \<open>What \<open>parseInt\<close> returned: \<open>NaN\<close>, or the double of the integer it read.\<close>

definition number_of_parsed :: "int option \<Rightarrow> number" where
  "number_of_parsed v = (case v of None \<Rightarrow> NaN | Some k \<Rightarrow> to_double (of_int k))"

subsection \<open>The delay\<close>

text \<open>
  \<open>r\<close> is the draw of \<open>Math.random()\<close>, a double with \<open>0 \<le> r < 1\<close>, given by
  its real value. Line 204 computes the minutes, line 209 the delay in milliseconds.
\<close>

definition randomMinutes :: "config \<Rightarrow> real \<Rightarrow> number" where
  "randomMinutes cfg r =
     (let minMinutes = Finite 1
      in num_add minMinutes
           (num_floor
              (num_mul (Finite r)
                 (num_sub (number_of_parsed (TIMER_INTERVAL_MINUTES cfg)) minMinutes))))"

definition timer_delay_ms :: "config \<Rightarrow> real \<Rightarrow> number" where
  "timer_delay_ms cfg r = num_mul (num_mul (randomMinutes cfg r) (Finite 60)) (Finite 1000)"

section \<open>Runs of the engine\<close>

text \<open>
  Every timeout the runtime holds is the one \<open>channelBatchTimers\<close> records for its
  channel, and its handle has been handed out.
\<close>

definition timers_wf :: "state \<Rightarrow> bool" where
  "timers_wf s =
     (\<forall>e \<in> set (timeouts s).
        channelBatchTimers s (t_channel e) = Some (t_handle e) \<and> t_handle e < next_handle s)"

text \<open>
  The scheduler. The engine is the state, the drains suspended at their \<open>await\<close>
  and the log of collaborator calls. One step is a handler's enqueue, the firing of a
  due timeout, or the resumption of a suspended drain whose backend call has settled;
  the steps of a list run in order, so a list is one interleaving. A timeout that is
  not pending or not due does not fire, and only a suspended drain resumes.
\<close>

record engine =
  e_state :: state
  e_suspended :: "drain_frame list"
  e_log :: "effect list"

datatype step =
    Enqueue int message MessageType
  | Fire int nat
  | Resume nat outcomes

definition initial_engine :: engine where
  "initial_engine = \<lparr>e_state = initial_state, e_suspended = [], e_log = []\<rparr>"

definition started :: "state \<times> drain_frame option \<Rightarrow> engine \<Rightarrow> engine" where
  "started r e =
     \<lparr>e_state = fst r,
      e_suspended = e_suspended e @ (case snd r of None \<Rightarrow> [] | Some f \<Rightarrow> [f]),
      e_log = e_log e @ frame_effects (snd r)\<rparr>"

fun step_engine :: "config \<Rightarrow> step \<Rightarrow> engine \<Rightarrow> engine" where
  "step_engine cfg (Enqueue now m mt) e =
     started (addMessageToBatch cfg now m mt (e_state e)) e"
| "step_engine cfg (Fire now h) e =
     (case timer_fire cfg now h (e_state e) of
        None \<Rightarrow> e
      | Some r \<Rightarrow> started r e)"
| "step_engine cfg (Resume i env) e =
     (if i < length (e_suspended e)
      then
        let r = drain_end (e_suspended e ! i) env (e_state e)
        in \<lparr>e_state = fst r,
            e_suspended = take i (e_suspended e) @ drop (Suc i) (e_suspended e),
            e_log = e_log e @ snd r\<rparr>
      else e)"

definition run :: "config \<Rightarrow> step list \<Rightarrow> engine \<Rightarrow> engine" where
  "run cfg steps e = foldl (\<lambda>e' st. step_engine cfg st e') e steps"

text \<open>
  A step whose drain, if it starts one, resumes before anything else runs: the runs in
  which no handler and no timeout callback falls between a drain's backend call and its
  completion.
\<close>

definition atomic_step :: "config \<Rightarrow> step \<Rightarrow> outcomes \<Rightarrow> engine \<Rightarrow> engine" where
  "atomic_step cfg st env e =
     (let e' = step_engine cfg st e
      in if e_suspended e' = [] then e' else step_engine cfg (Resume 0 env) e')"

text \<open>Every pending timeout belongs to a channel whose buffer is not empty.\<close>

definition buffers_inv :: "state \<Rightarrow> bool" where
  "buffers_inv s = (\<forall>e \<in> set (timeouts s). buffer_of s (t_channel e) \<noteq> [])"


text \<open>The backend calls in an effect log.\<close>

fun backend_calls :: "effect list \<Rightarrow> backend_call list" where
  "backend_calls [] = []"
| "backend_calls (SendMessage c # effs) = c # backend_calls effs"
| "backend_calls (_ # effs) = backend_calls effs"

subsection \<open>Reading the handler\<close>

text \<open>The event passes the four guards of lines 260 to 282.\<close>

definition passes_filters :: "config \<Rightarrow> message \<Rightarrow> bool" where
  "passes_filters cfg m =
     (\<not> (truthy (CHANNEL_ID cfg) \<and> Some (channel_id m) \<noteq> CHANNEL_ID cfg)
      \<and> Some (author_id m) \<noteq> client_user_id cfg
      \<and> \<not> (author_bot m \<and> \<not> RESPOND_TO_BOTS cfg)
      \<and> \<not> startsWith_bang (content m))"

text \<open>
  The message the event replies to, where line 313 finds one: the reference is there and
  its \<open>messageId\<close> is truthy.
\<close>

definition reply_target :: "message \<Rightarrow> string option" where
  "reply_target m =
     (case reference m of
        None \<Rightarrow> None
      | Some ref \<Rightarrow> if truthy (messageId ref) then messageId ref else None)"

subsection \<open>Concrete inputs\<close>

definition example_config :: config where
  "example_config =
     \<lparr>RESPOND_TO_DMS = True, RESPOND_TO_MENTIONS = True, RESPOND_TO_BOTS = False,
      RESPOND_TO_GENERIC = True, CHANNEL_ID = None, RESPONSE_CHANNEL_ID = None,
      ENABLE_TIMER = True, TIMER_INTERVAL_MINUTES = Some 15,
      MESSAGE_BATCH_ENABLED = True, MESSAGE_BATCH_SIZE = Some 10,
      MESSAGE_BATCH_TIMEOUT_MS = Some 30000, client_user_id = Some ''bot''\<rparr>"

definition immediate_config :: config where
  "immediate_config = example_config\<lparr>MESSAGE_BATCH_ENABLED := False\<rparr>"

definition example_message :: message where
  "example_message =
     \<lparr>channel_id = ''c1'', channel_name = Some ''general'', author_id = ''u1'',
      author_username = ''ann'', author_bot = False, content = ''hello'',
      in_guild = True, mentions_client = False, reference = None\<rparr>"

definition all_succeed :: outcomes where
  "all_succeed =
     \<lparr>typing_result = None,
      fetch_result = Inr \<lparr>original_author_id = ''bot'', original_content = ''hi''\<rparr>,
      backend_result = Inr ''ok'', reply_result = None\<rparr>"

text \<open>The fetched original was written by another user.\<close>

definition other_author :: outcomes where
  "other_author =
     all_succeed\<lparr>fetch_result := Inr \<lparr>original_author_id = ''u2'', original_content = ''hi''\<rparr>\<rparr>"

definition reply_message :: message where
  "reply_message = example_message\<lparr>reference := Some \<lparr>messageId = Some ''77''\<rparr>\<rparr>"



definition second_message :: message where
  "second_message = example_message\<lparr>author_id := ''u2'', author_username := ''bob'',
     content := ''anyone there''\<rparr>"

text \<open>
  One interleaving: an event is buffered, its timeout fires and the drain calls the
  backend; a second event arrives while the call is pending; the call settles.
\<close>

definition drain_started :: "step list" where
  "drain_started = [Enqueue 0 example_message GENERIC, Fire 30000 0]"

definition enqueue_during_drain :: "step list" where
  "enqueue_during_drain =
     drain_started @ [Enqueue 30001 second_message GENERIC, Resume 0 all_succeed]"

text \<open>A guild message that mentions the agent, and a reply to the agent's message.\<close>

definition mention_message :: message where
  "mention_message = example_message\<lparr>mentions_client := True\<rparr>"

definition reply_to_agent :: message where
  "reply_to_agent = reply_message\<lparr>content := ''thanks''\<rparr>"

definition backend_fails :: outcomes where
  "backend_fails = all_succeed\<lparr>backend_result := Inl BackendError\<rparr>"

section \<open>The ignore filters\<close>

text \<open>
  C10. An event whose author is the agent's own account, or whose text starts with
  \<open>!\<close>, or whose author is a bot while \<open>RESPOND_TO_BOTS\<close> is off, leaves the
  handler at one of its first four returns: no label is assigned, the buffers and the
  timers are as they were, and neither the backend nor the platform is called.
\<close>

theorem filtered_event_is_ignored:
  assumes "Some (author_id m) = client_user_id cfg
           \<or> (\<exists>rest. content m = CHR ''!'' # rest)
           \<or> (author_bot m \<and> \<not> RESPOND_TO_BOTS cfg)"
  shows "messageCreate cfg env now m s =
           \<lparr>r_state = s, r_effects = [], r_label = None, r_msgContent = None,
            r_frame = None, r_thrown = None\<rparr>"
proof -
  from assms have "messageCreate cfg env now m s = ignored s"
    by (auto simp: messageCreate_def startsWith_bang_def)
  then show ?thesis by (simp add: ignored_def)
qed

theorem filtered_event_is_ignored_witness:
  "messageCreate example_config all_succeed 0
       (example_message\<lparr>content := ''!ping''\<rparr>) initial_state =
     \<lparr>r_state = initial_state, r_effects = [], r_label = None, r_msgContent = None,
      r_frame = None, r_thrown = None\<rparr>
   \<and> messageCreate example_config all_succeed 0
       (example_message\<lparr>author_id := ''bot''\<rparr>) initial_state =
     \<lparr>r_state = initial_state, r_effects = [], r_label = None, r_msgContent = None,
      r_frame = None, r_thrown = None\<rparr>
   \<and> messageCreate example_config all_succeed 0
       (example_message\<lparr>author_bot := True\<rparr>) initial_state =
     \<lparr>r_state = initial_state, r_effects = [], r_label = None, r_msgContent = None,
      r_frame = None, r_thrown = None\<rparr>"
proof -
  have bang: "\<exists>rest. content (example_message\<lparr>content := ''!ping''\<rparr>) = CHR ''!'' # rest"
    by simp
  have self: "Some (author_id (example_message\<lparr>author_id := ''bot''\<rparr>)) =
      client_user_id example_config"
    by (simp add: example_config_def)
  have bot: "author_bot (example_message\<lparr>author_bot := True\<rparr>)
      \<and> \<not> RESPOND_TO_BOTS example_config"
    by (simp add: example_config_def)
  from bang self bot show ?thesis
    using
      filtered_event_is_ignored [of "example_message\<lparr>content := ''!ping''\<rparr>"
        example_config all_succeed 0 initial_state]
      filtered_event_is_ignored [of "example_message\<lparr>author_id := ''bot''\<rparr>"
        example_config all_succeed 0 initial_state]
      filtered_event_is_ignored [of "example_message\<lparr>author_bot := True\<rparr>"
        example_config all_succeed 0 initial_state]
    by blast
qed

section \<open>The delay of the random event timer\<close>

text \<open>Integers below \<open>2^53\<close> in magnitude are doubles: rounding leaves them.\<close>

lemma ulp_down_le: "ulp_down q a \<le> q"
proof (induction q a rule: ulp_down.induct)
  case (1 q a)
  show ?case
  proof (cases "- 1074 < q \<and> a < pow2 (q + 52)")
    case True
    with "1" have "ulp_down (q - 1) a \<le> q - 1" by simp
    with True show ?thesis by (subst ulp_down.simps) simp
  next
    case False
    then show ?thesis by (subst ulp_down.simps) auto
  qed
qed

lemma round_even_of_int [simp]: "round_even (of_int n) = n"
  by (simp add: round_even_def)

lemma to_double_of_int:
  assumes "\<bar>k\<bar> < 2 ^ 53"
  shows "to_double (of_int k) = Finite (of_int k)"
proof (cases "k = 0")
  case True
  then show ?thesis by (simp add: to_double_def)
next
  case False
  let ?a = "\<bar>real_of_int k\<bar>"
  define q where "q = ulp_exponent ?a"
  define j where "j = nat (- q)"
  have small: "?a < pow2 53"
  proof -
    from assms have "real_of_int \<bar>k\<bar> < real_of_int (2 ^ 53)" by (simp only: of_int_less_iff)
    then show ?thesis by (simp add: pow2_def)
  qed
  then have "q = ulp_down 0 ?a" by (simp add: q_def ulp_exponent_def)
  then have "q \<le> 0" using ulp_down_le [of 0 ?a] by simp
  then have p: "pow2 q = 1 / 2 ^ j" by (auto simp: pow2_def j_def)
  have scaled: "?a / pow2 q = real_of_int (\<bar>k\<bar> * 2 ^ j)" by (simp add: p)
  have r: "round_even (?a / pow2 q) = \<bar>k\<bar> * 2 ^ j"
    by (simp only: scaled round_even_of_int)
  have v: "real_of_int (round_even (?a / pow2 q)) * pow2 q = ?a"
    by (simp only: r) (simp add: p)
  have big: "\<not> pow2 1024 \<le> ?a"
  proof -
    have "pow2 53 \<le> pow2 1024" by (simp add: pow2_def)
    with small show ?thesis by linarith
  qed
  from False have "real_of_int k \<noteq> 0" by simp
  then show ?thesis
    using v big unfolding to_double_def Let_def q_def [symmetric]
    by (auto simp: q_def)
qed

lemma to_double_numeral [simp]:
  "(numeral n :: int) < 2 ^ 53 \<Longrightarrow> to_double (numeral n) = Finite (numeral n)"
  "(numeral n :: int) < 2 ^ 53 \<Longrightarrow> to_double (- numeral n) = Finite (- numeral n)"
  using to_double_of_int [of "numeral n"] to_double_of_int [of "- numeral n"] by simp_all

lemma to_double_small [simp]:
  "to_double 0 = Finite 0" "to_double 1 = Finite 1" "to_double (- 1) = Finite (- 1)"
  using to_double_of_int [of 0] to_double_of_int [of 1] to_double_of_int [of "- 1"]
  by simp_all

lemma ulp_half: "ulp_exponent (1/2) = - 53"
  by (simp add: ulp_exponent_def ulp_down.simps pow2_def)

lemma to_double_neg_half: "to_double (- (1/2)) = Finite (- (1/2))"
  by (simp add: to_double_def ulp_half pow2_def round_even_def Let_def)

lemma to_double_minus: "to_double (- x) = num_neg (to_double x)"
  by (simp add: to_double_def Let_def)

text \<open>
  C9, at a concrete input. With a configured maximum of 0 minutes and the draw
  \<open>0.5\<close>, line 204 computes \<open>1 + Math.floor(0.5 * (0 - 1)) = 1 + (-1) = 0\<close> minutes
  and line 209 a delay of 0 milliseconds: under the minimum of one minute that the
  comment on line 201 announces.
\<close>

theorem zero_maximum_gives_zero_delay:
  "randomMinutes (example_config\<lparr>TIMER_INTERVAL_MINUTES := Some 0\<rparr>) (1/2) = Finite 0
   \<and> timer_delay_ms (example_config\<lparr>TIMER_INTERVAL_MINUTES := Some 0\<rparr>) (1/2) = Finite 0"
  by (simp add: timer_delay_ms_def randomMinutes_def number_of_parsed_def num_sub_def
      to_double_neg_half)

text \<open>The same for every draw above 0 that is a double: the minutes are 0.\<close>

lemma zero_maximum_every_draw:
  assumes "TIMER_INTERVAL_MINUTES cfg = Some 0"
    and "to_double r = Finite r" and "0 < r" and "r < 1"
  shows "randomMinutes cfg r = Finite 0"
proof -
  have "to_double (- r) = Finite (- r)"
    using assms(2) by (simp add: to_double_minus)
  moreover have "\<lfloor>- r\<rfloor> = - 1"
    using assms(3,4) by (simp add: floor_eq_iff)
  ultimately show ?thesis
    using assms(1) by (simp add: randomMinutes_def number_of_parsed_def num_sub_def)
qed

text \<open>
  With the default maximum of 15 minutes the draw \<open>0.5\<close> gives 8 minutes; with a
  maximum of 1 minute every draw gives 1 minute, which is the maximum itself.
\<close>

lemma default_maximum_half:
  "timer_delay_ms example_config (1/2) = Finite 480000"
  by (simp add: timer_delay_ms_def randomMinutes_def number_of_parsed_def num_sub_def
      example_config_def)

lemma one_minute_maximum:
  assumes "TIMER_INTERVAL_MINUTES cfg = Some 1"
  shows "timer_delay_ms cfg r = Finite 60000"
  using assms
  by (simp add: timer_delay_ms_def randomMinutes_def number_of_parsed_def num_sub_def)

text \<open>
  The product of line 204 is rounded to a double before the floor is taken: with a
  maximum of 8 minutes and the draw \<open>2573485501354569 * 2^-52\<close> the exact product is
  \<open>4 - 2^-52\<close>, the double product is 4, and the minutes are 5.
\<close>

lemma ulp_below_four: "ulp_exponent (18014398509481983 / 4503599627370496) = - 51"
  by (simp add: ulp_exponent_def ulp_down.simps pow2_def)

lemma rounded_product:
  "to_double (2573485501354569 / 2 ^ 52 * 7) = Finite 4"
  by (simp add: to_double_def ulp_below_four pow2_def round_even_def Let_def)

lemma rounded_product_minutes:
  "randomMinutes (example_config\<lparr>TIMER_INTERVAL_MINUTES := Some 8\<rparr>)
     (2573485501354569 / 2 ^ 52) = Finite 5"
  using rounded_product
  by (simp add: randomMinutes_def number_of_parsed_def num_sub_def)

section \<open>One event: batch drain and immediate dispatch\<close>

lemma string_of_nat_1: "string_of_nat (Suc 0) = ''1''"
  by (simp add: string_of_nat.simps digit_char_def)

lemma batchMessage_single:
  "batchMessage channelId [bm] lastMessage =
     ''[Batch of 1 messages from '' @ channelName lastMessage channelId @ '']'' @ newline
       @ ''1. '' @ line_prefix bm @ '' '' @ content (message bm)"
  by (simp add: batchMessage_def batchedContent_def batch_lines_def format_line_def
      string_of_nat_1 enumerate_simps)

lemma drain_begin_nonempty:
  assumes "channelMessageBuffers s channelId = Some buf" and "buf \<noteq> []"
  shows "drain_begin cfg channelId s =
           (cancel_batch_timer channelId s, Some (suspended_drain cfg channelId buf))"
  using assms by (simp add: drain_begin_def)

lemma immediate_effects:
  "\<not> MESSAGE_BATCH_ENABLED cfg \<Longrightarrow>
   r_effects (processAndSendMessage cfg env now m mt s) =
     SendMessage \<lparr>call_message = m, call_messageType = mt,
                  call_canRespond = shouldRespondInChannel cfg (channel_id m),
                  call_customContent = None\<rparr>
     # (case backend_result env of
          Inl e \<Rightarrow> [LogError e]
        | Inr msg \<Rightarrow>
            if msg \<noteq> [] \<and> shouldRespondInChannel cfg (channel_id m)
            then (case reply_result env of
                    None \<Rightarrow> [Reply m msg] | Some e \<Rightarrow> [Reply m msg, LogError e])
            else [])"
  by (simp add: processAndSendMessage_def await_and_reply_def Let_def
      split: sum.split option.split)

text \<open>
  C3, as the code has it. For a buffer of one event the drain calls the backend with
  the event, its label and the channel's \<open>canRespond\<close>, as the immediate path
  does, but it passes a consolidated payload all the same: the count header
  \<open>[Batch of 1 messages from ...]\<close>, a line break, and the event as line
  \<open>1.\<close> with its provenance prefix. The immediate path passes no payload.
\<close>

theorem single_event_backend_calls:
  assumes "channelMessageBuffers s (channel_id m) =
             Some [\<lparr>message = m, messageType = mt, timestamp = ts\<rparr>]"
  shows "\<exists>s' f rest.
           drain_begin cfg (channel_id m) s = (s', Some f)
         \<and> f_call f =
             \<lparr>call_message = m, call_messageType = mt,
              call_canRespond = shouldRespondInChannel cfg (channel_id m),
              call_customContent =
                Some (''[Batch of 1 messages from '' @ channelName m (channel_id m) @ '']''
                      @ newline @ ''1. ''
                      @ line_prefix \<lparr>message = m, messageType = mt, timestamp = ts\<rparr>
                      @ '' '' @ content m)\<rparr>
         \<and> r_effects (processAndSendMessage (cfg\<lparr>MESSAGE_BATCH_ENABLED := False\<rparr>)
               env now m mt s0) =
             SendMessage (f_call f\<lparr>call_customContent := None\<rparr>) # rest"
proof -
  let ?bm = "\<lparr>message = m, messageType = mt, timestamp = ts\<rparr>"
  let ?f = "suspended_drain cfg (channel_id m) [?bm]"
  have started: "drain_begin cfg (channel_id m) s = (cancel_batch_timer (channel_id m) s, Some ?f)"
    using assms by (simp add: drain_begin_nonempty)
  have call: "f_call ?f =
      \<lparr>call_message = m, call_messageType = mt,
       call_canRespond = shouldRespondInChannel cfg (channel_id m),
       call_customContent =
         Some (''[Batch of 1 messages from '' @ channelName m (channel_id m) @ '']''
               @ newline @ ''1. '' @ line_prefix ?bm @ '' '' @ content m)\<rparr>"
    by (simp add: suspended_drain_def Let_def batchMessage_single)
  have "\<exists>rest. r_effects (processAndSendMessage (cfg\<lparr>MESSAGE_BATCH_ENABLED := False\<rparr>)
               env now m mt s0) =
             SendMessage (f_call ?f\<lparr>call_customContent := None\<rparr>) # rest"
    by (simp add: immediate_effects call shouldRespondInChannel_def)
  with started call show ?thesis by blast
qed

lemma example_drain:
  "drain_begin example_config ''c1''
      (initial_state\<lparr>channelMessageBuffers :=
         [''c1'' \<mapsto> [\<lparr>message = example_message, messageType = GENERIC, timestamp = 0\<rparr>]]\<rparr>) =
     (initial_state\<lparr>channelMessageBuffers :=
         [''c1'' \<mapsto> [\<lparr>message = example_message, messageType = GENERIC, timestamp = 0\<rparr>]]\<rparr>,
      Some \<lparr>f_channelId = ''c1'', f_lastMessage = example_message, f_canRespond = True,
        f_call = \<lparr>call_message = example_message, call_messageType = GENERIC,
          call_canRespond = True,
          call_customContent =
            Some (''[Batch of 1 messages from #general]'' @ newline @ ''1. [ann (id=u1)] hello'')\<rparr>\<rparr>)"
  by (simp add: drain_begin_def cancel_batch_timer_def initial_state_def suspended_drain_def
      Let_def batchMessage_single shouldRespondInChannel_def truthy_def example_config_def
      channelName_def line_prefix_def example_message_def)

lemma example_immediate:
  "r_effects (processAndSendMessage immediate_config all_succeed 0 example_message GENERIC
         initial_state) =
     [SendMessage \<lparr>call_message = example_message, call_messageType = GENERIC,
        call_canRespond = True, call_customContent = None\<rparr>,
      Reply example_message ''ok'']"
  by (simp add: immediate_effects immediate_config_def example_config_def all_succeed_def
      shouldRespondInChannel_def truthy_def)

theorem single_event_backend_calls_witness:
  "drain_begin example_config ''c1''
      (initial_state\<lparr>channelMessageBuffers :=
         [''c1'' \<mapsto> [\<lparr>message = example_message, messageType = GENERIC, timestamp = 0\<rparr>]]\<rparr>) =
     (initial_state\<lparr>channelMessageBuffers :=
         [''c1'' \<mapsto> [\<lparr>message = example_message, messageType = GENERIC, timestamp = 0\<rparr>]]\<rparr>,
      Some \<lparr>f_channelId = ''c1'', f_lastMessage = example_message, f_canRespond = True,
        f_call = \<lparr>call_message = example_message, call_messageType = GENERIC,
          call_canRespond = True,
          call_customContent =
            Some (''[Batch of 1 messages from #general]'' @ newline @ ''1. [ann (id=u1)] hello'')\<rparr>\<rparr>)
   \<and> r_effects (processAndSendMessage immediate_config all_succeed 0 example_message GENERIC
         initial_state) =
     [SendMessage \<lparr>call_message = example_message, call_messageType = GENERIC,
        call_canRespond = True, call_customContent = None\<rparr>,
      Reply example_message ''ok'']"
  using single_event_backend_calls [of
      "initial_state\<lparr>channelMessageBuffers :=
         [''c1'' \<mapsto> [\<lparr>message = example_message, messageType = GENERIC, timestamp = 0\<rparr>]]\<rparr>"
      example_message GENERIC 0 example_config all_succeed 0 initial_state]
    example_drain example_immediate
  by simp

text \<open>
  For one generic event the drain's backend call carries the enumerated payload and the
  immediate call carries none: the two calls differ.
\<close>

theorem single_event_payload_counterexample:
  "backend_calls (frame_effects (snd (drain_begin example_config ''c1''
      (initial_state\<lparr>channelMessageBuffers :=
         [''c1'' \<mapsto> [\<lparr>message = example_message, messageType = GENERIC, timestamp = 0\<rparr>]]\<rparr>)))) =
     [\<lparr>call_message = example_message, call_messageType = GENERIC, call_canRespond = True,
       call_customContent =
         Some (''[Batch of 1 messages from #general]'' @ newline @ ''1. [ann (id=u1)] hello'')\<rparr>]
   \<and> backend_calls (r_effects (processAndSendMessage immediate_config all_succeed 0
        example_message GENERIC initial_state)) =
     [\<lparr>call_message = example_message, call_messageType = GENERIC, call_canRespond = True,
       call_customContent = None\<rparr>]
   \<and> backend_calls (frame_effects (snd (drain_begin example_config ''c1''
      (initial_state\<lparr>channelMessageBuffers :=
         [''c1'' \<mapsto> [\<lparr>message = example_message, messageType = GENERIC, timestamp = 0\<rparr>]]\<rparr>))))
     \<noteq> backend_calls (r_effects (processAndSendMessage immediate_config all_succeed 0
        example_message GENERIC initial_state))"
  by (simp add: example_drain example_immediate frame_effects_def)

section \<open>Classification\<close>

lemma label_processAndSendMessage [simp]:
  "r_label (processAndSendMessage cfg env now m mt s) = Some mt"
  by (simp add: processAndSendMessage_def Let_def split: prod.split)

lemma label_mention_dispatch [simp]:
  "r_label (mention_dispatch cfg env now m canRespond before mt msgContent s) = Some mt"
  by (simp add: mention_dispatch_def Let_def split: prod.split)

lemma label_mention_branch:
  assumes "typing_result env = None" and "fetch_result env = Inr orig"
  shows "r_label (mention_branch cfg env now m s) =
           Some (if reply_target m = None then MENTION
                 else if Some (original_author_id orig) = client_user_id cfg then REPLY
                 else if mentions_client m then MENTION else GENERIC)"
  using assms
  by (auto simp add: mention_branch_def reply_target_def reply_label_def Let_def truthy_def
      split: option.split prod.split)

lemma messageCreate_passed:
  assumes "passes_filters cfg m"
  shows "messageCreate cfg env now m s =
     (if \<not> in_guild m
        then (if RESPOND_TO_DMS cfg then processAndSendMessage cfg env now m DM s
              else ignored s)
      else if RESPOND_TO_MENTIONS cfg \<and> (mentions_client m \<or> reference m \<noteq> None)
        then mention_branch cfg env now m s
      else if RESPOND_TO_GENERIC cfg then processAndSendMessage cfg env now m GENERIC s
      else ignored s)"
proof -
  from assms have
    "\<not> (truthy (CHANNEL_ID cfg) \<and> Some (channel_id m) \<noteq> CHANNEL_ID cfg)"
    "Some (author_id m) \<noteq> client_user_id cfg"
    "\<not> (author_bot m \<and> \<not> RESPOND_TO_BOTS cfg)"
    "\<not> startsWith_bang (content m)"
    by (simp_all add: passes_filters_def)
  then show ?thesis unfolding messageCreate_def by (simp only: if_False)
qed

text \<open>
  C5, as the code has it. For an event that passes the filters and whose platform calls
  succeed: a private message is labelled DM (when DMs are answered). A guild message,
  with mention handling on: one that mentions the agent is labelled MENTION unless it
  replies to the agent's own message; a reply to a message of another author that does
  not mention the agent is labelled GENERIC; a reply whose reference names no message
  is labelled MENTION. A guild message outside the mention branch is labelled GENERIC
  (when generic messages are answered).
\<close>

theorem classification_priority:
  assumes "passes_filters cfg m"
    and "typing_result env = None" and "fetch_result env = Inr orig"
  shows "(\<not> in_guild m \<and> RESPOND_TO_DMS cfg \<longrightarrow>
            r_label (messageCreate cfg env now m s) = Some DM)
       \<and> (in_guild m \<and> RESPOND_TO_MENTIONS cfg \<and> mentions_client m
            \<and> \<not> (reply_target m \<noteq> None
                   \<and> Some (original_author_id orig) = client_user_id cfg) \<longrightarrow>
            r_label (messageCreate cfg env now m s) = Some MENTION)
       \<and> (in_guild m \<and> RESPOND_TO_MENTIONS cfg \<and> \<not> mentions_client m
            \<and> reply_target m \<noteq> None
            \<and> Some (original_author_id orig) \<noteq> client_user_id cfg \<longrightarrow>
            r_label (messageCreate cfg env now m s) = Some GENERIC)
       \<and> (in_guild m \<and> RESPOND_TO_MENTIONS cfg \<and> \<not> mentions_client m
            \<and> reference m \<noteq> None \<and> reply_target m = None \<longrightarrow>
            r_label (messageCreate cfg env now m s) = Some MENTION)
       \<and> (in_guild m \<and> \<not> (RESPOND_TO_MENTIONS cfg \<and> (mentions_client m \<or> reference m \<noteq> None))
            \<and> RESPOND_TO_GENERIC cfg \<longrightarrow>
            r_label (messageCreate cfg env now m s) = Some GENERIC)"
proof -
  have guild: "in_guild m \<Longrightarrow> RESPOND_TO_MENTIONS cfg \<Longrightarrow>
      mentions_client m \<or> reference m \<noteq> None \<Longrightarrow>
      r_label (messageCreate cfg env now m s) =
        Some (if reply_target m = None then MENTION
              else if Some (original_author_id orig) = client_user_id cfg then REPLY
              else if mentions_client m then MENTION else GENERIC)"
    using assms by (simp add: messageCreate_passed label_mention_branch)
  have dm: "\<not> in_guild m \<Longrightarrow> RESPOND_TO_DMS cfg \<Longrightarrow>
      r_label (messageCreate cfg env now m s) = Some DM"
    using assms(1) by (simp add: messageCreate_passed)
  have generic: "in_guild m \<Longrightarrow>
      \<not> (RESPOND_TO_MENTIONS cfg \<and> (mentions_client m \<or> reference m \<noteq> None)) \<Longrightarrow>
      RESPOND_TO_GENERIC cfg \<Longrightarrow>
      r_label (messageCreate cfg env now m s) = Some GENERIC"
    using assms(1) by (auto simp add: messageCreate_passed)
  have refs: "reply_target m \<noteq> None \<Longrightarrow> reference m \<noteq> None"
    by (cases "reference m") (simp_all add: reply_target_def)
  show ?thesis
    using guild dm generic refs by auto
qed

theorem classification_priority_witness:
  "r_label (messageCreate example_config other_author 0 reply_message initial_state)
     = Some GENERIC
   \<and> r_label (messageCreate example_config other_author 0
        (reply_message\<lparr>mentions_client := True\<rparr>) initial_state) = Some MENTION
   \<and> r_label (messageCreate example_config other_author 0
        (example_message\<lparr>in_guild := False\<rparr>) initial_state) = Some DM
   \<and> r_label (messageCreate example_config other_author 0 example_message initial_state)
        = Some GENERIC"
proof -
  let ?orig = "\<lparr>original_author_id = ''u2'', original_content = ''hi''\<rparr>"
  have typing: "typing_result other_author = None"
    and fetch: "fetch_result other_author = Inr ?orig"
    by (simp_all add: other_author_def all_succeed_def)
  have pass: "\<And>m. m \<in> {reply_message, reply_message\<lparr>mentions_client := True\<rparr>,
        example_message\<lparr>in_guild := False\<rparr>, example_message} \<Longrightarrow>
      passes_filters example_config m"
    by (auto simp: passes_filters_def example_config_def example_message_def
        reply_message_def truthy_def startsWith_bang_def)
  have cfg: "RESPOND_TO_DMS example_config" "RESPOND_TO_MENTIONS example_config"
      "RESPOND_TO_GENERIC example_config" "client_user_id example_config = Some ''bot''"
    by (simp_all add: example_config_def)
  have reply: "reply_target reply_message \<noteq> None"
      "reply_target (reply_message\<lparr>mentions_client := True\<rparr>) \<noteq> None"
      "in_guild reply_message" "\<not> mentions_client reply_message"
    by (simp_all add: reply_target_def reply_message_def example_message_def truthy_def)
  have plain: "in_guild example_message" "\<not> mentions_client example_message"
      "reference example_message = None"
    by (simp_all add: example_message_def)
  have a: "r_label (messageCreate example_config other_author 0 reply_message initial_state)
      = Some GENERIC"
    using classification_priority [OF pass typing fetch, of reply_message 0 initial_state]
      cfg reply by simp
  have b: "r_label (messageCreate example_config other_author 0
      (reply_message\<lparr>mentions_client := True\<rparr>) initial_state) = Some MENTION"
    using classification_priority [OF pass typing fetch,
        of "reply_message\<lparr>mentions_client := True\<rparr>" 0 initial_state]
      cfg reply by simp
  have c: "r_label (messageCreate example_config other_author 0
      (example_message\<lparr>in_guild := False\<rparr>) initial_state) = Some DM"
    using classification_priority [OF pass typing fetch,
        of "example_message\<lparr>in_guild := False\<rparr>" 0 initial_state]
      cfg by simp
  have d: "r_label (messageCreate example_config other_author 0 example_message initial_state)
      = Some GENERIC"
    using classification_priority [OF pass typing fetch, of example_message 0 initial_state]
      cfg plain by simp
  from a b c d show ?thesis by simp
qed

text \<open>
  A reply to another user's message that does not mention the agent is labelled
  GENERIC, not MENTION (line 323).
\<close>

theorem reply_to_other_author_counterexample:
  "r_label (messageCreate example_config other_author 0 reply_message initial_state)
     = Some GENERIC
   \<and> r_label (messageCreate example_config other_author 0 reply_message initial_state)
     \<noteq> Some MENTION"
  by (simp add: messageCreate_def label_mention_branch [where orig = "\<lparr>original_author_id = ''u2'', original_content = ''hi''\<rparr>"]
      example_config_def example_message_def reply_message_def
      truthy_def startsWith_bang_def other_author_def all_succeed_def reply_target_def)

section \<open>Enqueue: the size limit and the sliding timeout\<close>


lemma pending_for_cancel:
  assumes "timers_wf s"
  shows "pending_for (cancel_batch_timer channelId s) channelId = []"
proof (cases "channelBatchTimers s channelId")
  case None
  with assms show ?thesis
    by (auto simp: pending_for_def cancel_batch_timer_def timers_wf_def filter_empty_conv)
next
  case (Some h)
  with assms show ?thesis
    by (auto simp: pending_for_def cancel_batch_timer_def clearTimeout_def timers_wf_def
        filter_empty_conv)
qed

lemma timers_cancel [simp]:
  "channelBatchTimers (cancel_batch_timer channelId s) channelId = None"
  by (simp add: cancel_batch_timer_def split: option.split)

lemma buffers_cancel [simp]:
  "channelMessageBuffers (cancel_batch_timer channelId s) = channelMessageBuffers s"
  by (simp add: cancel_batch_timer_def clearTimeout_def split: option.split)

lemma wf_cancel:
  assumes "timers_wf s"
  shows "timers_wf (cancel_batch_timer channelId s)"
  using assms
  by (auto simp: cancel_batch_timer_def clearTimeout_def timers_wf_def split: option.split)


lemma batch_lines_length [simp]: "length (batch_lines buffer) = length buffer"
  by (simp add: batch_lines_def)






lemma arms_unfold:
  assumes "\<not> js_ge (Suc (length (buffer_of s (channel_id m)))) (MESSAGE_BATCH_SIZE cfg)"
  shows "addMessageToBatch cfg now m mt s =
    (\<lparr>channelMessageBuffers = (channelMessageBuffers s)
         (channel_id m \<mapsto>
            buffer_of s (channel_id m) @ [\<lparr>message = m, messageType = mt, timestamp = now\<rparr>]),
      channelBatchTimers = (channelBatchTimers s)(channel_id m \<mapsto> next_handle s),
      timeouts =
        (case channelBatchTimers s (channel_id m) of
           None \<Rightarrow> timeouts s
         | Some h \<Rightarrow> filter (\<lambda>e. t_handle e \<noteq> h) (timeouts s))
        @ [\<lparr>t_handle = next_handle s, t_channel = channel_id m,
             t_due = now + timeout_delay (MESSAGE_BATCH_TIMEOUT_MS cfg)\<rparr>],
      next_handle = Suc (next_handle s)\<rparr>, None)"
  using assms
  by (simp add: addMessageToBatch_def Let_def setTimeout_def clearTimeout_def
      split: option.split)



lemma arms_wf:
  assumes "timers_wf s"
    and "\<not> js_ge (Suc (length (buffer_of s (channel_id m)))) (MESSAGE_BATCH_SIZE cfg)"
  shows "timers_wf (fst (addMessageToBatch cfg now m mt s))"
proof (cases "channelBatchTimers s (channel_id m)")
  case None
  with assms(1) show ?thesis
    by (auto simp: arms_unfold [OF assms(2)] timers_wf_def less_Suc_eq)
next
  case (Some h)
  with assms(1) show ?thesis
    by (auto simp: arms_unfold [OF assms(2)] timers_wf_def less_Suc_eq)
qed






lemma buffers_clearTimeout [simp]:
  "channelMessageBuffers (clearTimeout h s) = channelMessageBuffers s"
  by (simp add: clearTimeout_def)





section \<open>Runs of the scheduler\<close>

text \<open>
  In every state a run reaches, each timeout the runtime holds is the one recorded for
  its channel: the hypothesis \<open>timers_wf\<close> of the theorems above holds wherever the
  engine can be.
\<close>

lemma wf_initial: "timers_wf initial_state"
  by (simp add: timers_wf_def initial_state_def)

lemma wf_clearTimeout: "timers_wf s \<Longrightarrow> timers_wf (clearTimeout h s)"
  by (auto simp: timers_wf_def clearTimeout_def)

lemma wf_buffers_update:
  "timers_wf (s\<lparr>channelMessageBuffers := b\<rparr>) = timers_wf s"
  by (simp add: timers_wf_def)

lemma state_drain_begin:
  "fst (drain_begin cfg channelId s) = cancel_batch_timer channelId s"
  by (simp add: drain_begin_def Let_def split: option.split)

lemma wf_drain_begin: "timers_wf s \<Longrightarrow> timers_wf (fst (drain_begin cfg channelId s))"
  by (simp add: state_drain_begin wf_cancel)

lemma wf_addMessageToBatch:
  assumes "timers_wf s"
  shows "timers_wf (fst (addMessageToBatch cfg now m mt s))"
proof (cases "js_ge (Suc (length (buffer_of s (channel_id m)))) (MESSAGE_BATCH_SIZE cfg)")
  case True
  then show ?thesis
    using assms
    by (simp add: addMessageToBatch_def Let_def wf_drain_begin wf_buffers_update)
next
  case False
  show ?thesis
  proof (cases "channelBatchTimers s (channel_id m)")
    case None
    with assms False show ?thesis
      by (auto simp: addMessageToBatch_def Let_def setTimeout_def timers_wf_def less_Suc_eq)
  next
    case (Some h)
    with assms False show ?thesis
      by (auto simp: addMessageToBatch_def Let_def setTimeout_def clearTimeout_def
          timers_wf_def less_Suc_eq)
  qed
qed

lemma wf_timer_fire:
  assumes "timers_wf s" and "timer_fire cfg now h s = Some r"
  shows "timers_wf (fst r)"
proof -
  from assms(2) obtain channelId where "r = drain_begin cfg channelId (clearTimeout h s)"
    by (auto simp: timer_fire_def split: list.splits if_splits)
  with assms(1) show ?thesis by (simp add: wf_drain_begin wf_clearTimeout)
qed

lemma wf_drain_end: "timers_wf s \<Longrightarrow> timers_wf (fst (drain_end f env s))"
  by (simp add: drain_end_def Let_def wf_buffers_update split: prod.split)

lemma wf_step:
  assumes "timers_wf (e_state e)"
  shows "timers_wf (e_state (step_engine cfg st e))"
proof (cases st)
  case (Enqueue now m mt)
  with assms show ?thesis by (simp add: started_def wf_addMessageToBatch)
next
  case (Fire now h)
  with assms show ?thesis
    by (auto simp: started_def wf_timer_fire split: option.split)
next
  case (Resume i env)
  with assms show ?thesis by (simp add: Let_def wf_drain_end)
qed

lemma wf_run:
  assumes "timers_wf (e_state e)"
  shows "timers_wf (e_state (run cfg steps e))"
  using assms
proof (induction steps arbitrary: e)
  case Nil
  then show ?case by (simp add: run_def)
next
  case (Cons st steps)
  from Cons.prems have "timers_wf (e_state (step_engine cfg st e))" by (rule wf_step)
  then have "timers_wf (e_state (run cfg steps (step_engine cfg st e)))" by (rule Cons.IH)
  then show ?case by (simp add: run_def)
qed

lemma every_run_keeps_timers_wf:
  "timers_wf (e_state (run cfg steps initial_engine))"
  by (rule wf_run) (simp add: initial_engine_def wf_initial)

section \<open>The drain and the buffer map\<close>

text \<open>Once a drain has resumed, its channel has no buffer, whatever the backend did.\<close>

lemma drain_end_removes_buffer:
  "channelMessageBuffers (fst (drain_end f env s)) (f_channelId f) = None"
  by (simp add: drain_end_def Let_def split: prod.split)

text \<open>The first part of a drain leaves the buffer map as it found it.\<close>

lemma drain_begin_keeps_buffers:
  "channelMessageBuffers (fst (drain_begin cfg channelId s)) = channelMessageBuffers s"
  by (simp add: state_drain_begin)

text \<open>
  C1, at a concrete run. One event is buffered and its timeout fires. At the moment the
  drain has called the backend and waits for it, the timeout is cleared and forgotten,
  but the channel's buffer is still in \<open>channelMessageBuffers\<close> with the event in
  it: line 121 deletes it only after the call has settled.
\<close>

theorem buffer_attached_during_backend_call:
  "backend_calls (e_log (run example_config drain_started initial_engine)) =
     [\<lparr>call_message = example_message, call_messageType = GENERIC, call_canRespond = True,
       call_customContent =
         Some (''[Batch of 1 messages from #general]'' @ newline @ ''1. [ann (id=u1)] hello'')\<rparr>]
   \<and> length (e_suspended (run example_config drain_started initial_engine)) = 1
   \<and> channelBatchTimers (e_state (run example_config drain_started initial_engine)) ''c1'' = None
   \<and> pending_for (e_state (run example_config drain_started initial_engine)) ''c1'' = []
   \<and> channelMessageBuffers (e_state (run example_config drain_started initial_engine)) ''c1'' =
       Some [\<lparr>message = example_message, messageType = GENERIC, timestamp = 0\<rparr>]"
  by code_simp

text \<open>
  C2, at a concrete run. An event that arrives while the drain waits for the backend is
  appended to the buffer the drain is sending and arms a new timeout. When the drain
  resumes, line 121 deletes that buffer: a timeout is pending for the channel and the
  channel has no buffer. When that timeout fires, nothing is sent: the log of the whole
  run holds one backend call, for the first event alone.
\<close>

theorem timer_pending_without_buffer:
  "pending_for (e_state (run example_config enqueue_during_drain initial_engine)) ''c1'' =
     [\<lparr>t_handle = 1, t_channel = ''c1'', t_due = 60001\<rparr>]
   \<and> channelBatchTimers (e_state (run example_config enqueue_during_drain initial_engine))
       ''c1'' = Some 1
   \<and> channelMessageBuffers (e_state (run example_config enqueue_during_drain initial_engine))
       ''c1'' = None
   \<and> e_suspended (run example_config enqueue_during_drain initial_engine) = []
   \<and> backend_calls (e_log (run example_config (enqueue_during_drain @ [Fire 60001 1])
        initial_engine)) =
     [\<lparr>call_message = example_message, call_messageType = GENERIC, call_canRespond = True,
       call_customContent =
         Some (''[Batch of 1 messages from #general]'' @ newline @ ''1. [ann (id=u1)] hello'')\<rparr>]"
  by code_simp

subsection \<open>Runs without the interleaving\<close>

text \<open>
  Where every drain resumes before the next handler or timeout callback runs, each
  step keeps both halves of the invariant: every pending timeout is the one recorded
  for its channel, and the buffer of its channel is not empty.
\<close>

lemma buffer_of_cancel [simp]:
  "buffer_of (cancel_batch_timer channelId s) c = buffer_of s c"
  by (simp add: buffer_of_def)

lemma timeouts_cancel_subset:
  "set (timeouts (cancel_batch_timer channelId s)) \<subseteq> set (timeouts s)"
  by (auto simp: cancel_batch_timer_def clearTimeout_def split: option.split)

lemma inv_cancel: "buffers_inv s \<Longrightarrow> buffers_inv (cancel_batch_timer channelId s)"
  using timeouts_cancel_subset [of channelId s] by (auto simp: buffers_inv_def)

lemma inv_clearTimeout: "buffers_inv s \<Longrightarrow> buffers_inv (clearTimeout h s)"
  by (auto simp: buffers_inv_def clearTimeout_def buffer_of_def)

lemma inv_drop:
  assumes "\<forall>e \<in> set (timeouts s). t_channel e \<noteq> channelId \<longrightarrow> buffer_of s (t_channel e) \<noteq> []"
    and "pending_for s channelId = []"
  shows "buffers_inv (s\<lparr>channelMessageBuffers := (channelMessageBuffers s)(channelId := None)\<rparr>)"
  using assms
  by (auto simp: buffers_inv_def pending_for_def filter_empty_conv buffer_of_def)

lemma state_drain_end:
  "fst (drain_end f env s) =
     s\<lparr>channelMessageBuffers := (channelMessageBuffers s)(f_channelId f := None)\<rparr>"
  by (simp add: drain_end_def Let_def split: prod.split)

lemma frame_drain_begin:
  "snd (drain_begin cfg channelId s) = Some f \<Longrightarrow> f_channelId f = channelId"
  by (auto simp: drain_begin_def Let_def suspended_drain_def split: option.splits if_splits)

lemma atomic_drain:
  assumes wf: "timers_wf s" and inv: "buffers_inv s"
    and r: "r = drain_begin cfg channelId s"
  shows "(snd r = None \<longrightarrow> timers_wf (fst r) \<and> buffers_inv (fst r))
       \<and> (\<forall>f. snd r = Some f \<longrightarrow>
             timers_wf (fst (drain_end f env (fst r))) \<and> buffers_inv (fst (drain_end f env (fst r))))"
proof -
  have st: "fst r = cancel_batch_timer channelId s" using r by (simp add: state_drain_begin)
  have wf1: "timers_wf (fst r)" using wf st by (simp add: wf_cancel)
  have inv1: "buffers_inv (fst r)" using inv st by (simp add: inv_cancel)
  have pend: "pending_for (fst r) channelId = []" using wf st by (simp add: pending_for_cancel)
  {
    fix f assume f: "snd r = Some f"
    then have ch: "f_channelId f = channelId" using r by (simp add: frame_drain_begin)
    have "\<forall>e \<in> set (timeouts (fst r)). t_channel e \<noteq> channelId \<longrightarrow>
        buffer_of (fst r) (t_channel e) \<noteq> []"
      using inv1 by (simp add: buffers_inv_def)
    then have "buffers_inv (fst (drain_end f env (fst r)))"
      using pend ch by (simp add: state_drain_end inv_drop)
    moreover have "timers_wf (fst (drain_end f env (fst r)))"
      using wf1 by (rule wf_drain_end)
    ultimately have "timers_wf (fst (drain_end f env (fst r)))
        \<and> buffers_inv (fst (drain_end f env (fst r)))" by simp
  }
  with wf1 inv1 show ?thesis by blast
qed

lemma inv_enqueued:
  assumes "buffers_inv s"
  shows "buffers_inv (s\<lparr>channelMessageBuffers :=
           (channelMessageBuffers s)(channelId \<mapsto> buffer_of s channelId @ [bm])\<rparr>)"
  using assms by (auto simp: buffers_inv_def buffer_of_def)

lemma arms_inv:
  assumes "buffers_inv s"
    and "\<not> js_ge (Suc (length (buffer_of s (channel_id m)))) (MESSAGE_BATCH_SIZE cfg)"
  shows "buffers_inv (fst (addMessageToBatch cfg now m mt s))"
  using assms(1)
  by (auto simp: arms_unfold [OF assms(2)] buffers_inv_def buffer_of_def split: option.splits)

lemma resume_started:
  assumes "e_suspended e = []" and "snd r = Some f"
  shows "e_state (step_engine cfg (Resume 0 env) (started r e)) = fst (drain_end f env (fst r))"
    and "e_suspended (step_engine cfg (Resume 0 env) (started r e)) = []"
  using assms by (simp_all add: started_def Let_def)

lemma started_none:
  assumes "e_suspended e = []" and "snd r = None"
  shows "e_state (started r e) = fst r" and "e_suspended (started r e) = []"
  using assms by (simp_all add: started_def)

lemma atomic_started:
  assumes sus: "e_suspended e = []"
    and r: "r = drain_begin cfg channelId s" and wf: "timers_wf s" and inv: "buffers_inv s"
  shows "timers_wf (e_state (if e_suspended (started r e) = [] then started r e
                              else step_engine cfg (Resume 0 env) (started r e)))
       \<and> buffers_inv (e_state (if e_suspended (started r e) = [] then started r e
                              else step_engine cfg (Resume 0 env) (started r e)))
       \<and> e_suspended (if e_suspended (started r e) = [] then started r e
                              else step_engine cfg (Resume 0 env) (started r e)) = []"
proof (cases "snd r")
  case None
  with atomic_drain [OF wf inv r, of env] started_none [OF sus None]
  show ?thesis by simp
next
  case (Some f)
  then have "e_suspended (started r e) \<noteq> []" by (simp add: started_def)
  with atomic_drain [OF wf inv r, of env] resume_started [OF sus Some, of cfg env] Some
  show ?thesis by simp
qed

lemma atomic_step_keeps_invariant:
  assumes "timers_wf (e_state e)" and "buffers_inv (e_state e)" and "e_suspended e = []"
  shows "timers_wf (e_state (atomic_step cfg st env e))
       \<and> buffers_inv (e_state (atomic_step cfg st env e))
       \<and> e_suspended (atomic_step cfg st env e) = []"
proof (cases st)
  case (Enqueue now m mt)
  let ?s = "e_state e"
  let ?ch = "channel_id m"
  let ?bm = "\<lparr>message = m, messageType = mt, timestamp = now\<rparr>"
  show ?thesis
  proof (cases "js_ge (Suc (length (buffer_of ?s ?ch))) (MESSAGE_BATCH_SIZE cfg)")
    case True
    let ?s1 = "?s\<lparr>channelMessageBuffers :=
        (channelMessageBuffers ?s)(?ch \<mapsto> buffer_of ?s ?ch @ [?bm])\<rparr>"
    have r: "addMessageToBatch cfg now m mt ?s = drain_begin cfg ?ch ?s1"
      using True by (simp add: addMessageToBatch_def Let_def)
    have wf1: "timers_wf ?s1" using assms(1) by (simp add: wf_buffers_update)
    have inv1: "buffers_inv ?s1" using assms(2) by (rule inv_enqueued)
    from atomic_started [OF assms(3) r wf1 inv1, of env] Enqueue
    show ?thesis by (simp add: atomic_step_def Let_def)
  next
    case False
    have none: "snd (addMessageToBatch cfg now m mt ?s) = None"
      by (simp add: arms_unfold [OF False])
    from started_none [OF assms(3) none]
      arms_wf [OF assms(1) False, of now mt] arms_inv [OF assms(2) False, of now mt] Enqueue
    show ?thesis by (simp add: atomic_step_def Let_def)
  qed
next
  case (Fire now h)
  show ?thesis
  proof (cases "timer_fire cfg now h (e_state e)")
    case None
    with Fire assms show ?thesis by (simp add: atomic_step_def Let_def)
  next
    case (Some r)
    then obtain channelId where
      r: "r = drain_begin cfg channelId (clearTimeout h (e_state e))"
      by (auto simp: timer_fire_def split: list.splits if_splits)
    have wf1: "timers_wf (clearTimeout h (e_state e))"
      using assms(1) by (rule wf_clearTimeout)
    have inv1: "buffers_inv (clearTimeout h (e_state e))"
      using assms(2) by (rule inv_clearTimeout)
    from atomic_started [OF assms(3) r wf1 inv1, of env] Fire Some
    show ?thesis by (simp add: atomic_step_def Let_def)
  qed
next
  case (Resume i env')
  with assms show ?thesis by (simp add: atomic_step_def Let_def)
qed

section \<open>Errors of the collaborators\<close>

text \<open>\<open>processAndSendMessage\<close> catches whatever its calls throw (lines 179 to 190).\<close>

lemma processAndSendMessage_catches:
  "r_thrown (processAndSendMessage cfg env now m mt s) = None"
  by (simp add: processAndSendMessage_def Let_def split: prod.split)

lemma backend_calls_append [simp]:
  "backend_calls (xs @ ys) = backend_calls xs @ backend_calls ys"
  by (induction xs rule: backend_calls.induct) simp_all

lemma await_and_reply_calls [simp]:
  "backend_calls (fst (await_and_reply target canRespond env)) = []"
  by (simp add: await_and_reply_def split: sum.split)

lemma await_and_reply_thrown:
  "backend_result env = Inl e \<Longrightarrow> snd (await_and_reply target canRespond env) = Some e"
  by (simp add: await_and_reply_def)

lemma mention_dispatch_immediate:
  assumes "\<not> MESSAGE_BATCH_ENABLED cfg"
  shows "r_thrown (mention_dispatch cfg env now m canRespond before mt msgContent s) =
           snd (await_and_reply m canRespond env)"
    and "backend_calls (r_effects (mention_dispatch cfg env now m canRespond before mt msgContent s)) =
           backend_calls before @
           [\<lparr>call_message = m, call_messageType = mt, call_canRespond = canRespond,
             call_customContent = None\<rparr>]"
    and "r_msgContent (mention_dispatch cfg env now m canRespond before mt msgContent s) =
           Some msgContent"
  using assms await_and_reply_calls [of m canRespond env]
  by (simp_all add: mention_dispatch_def Let_def case_prod_unfold del: await_and_reply_calls)

text \<open>
  With batching off, a rejection of the backend leaves the handler for every guild
  message that mentions the agent.
\<close>

lemma mention_branch_rejection_escapes:
  assumes "passes_filters cfg m" and "in_guild m" and "RESPOND_TO_MENTIONS cfg"
    and "mentions_client m" and "reference m = None"
    and "\<not> MESSAGE_BATCH_ENABLED cfg"
    and "typing_result env = None" and "backend_result env = Inl e"
  shows "r_thrown (messageCreate cfg env now m s) = Some e"
  using assms
  by (simp add: messageCreate_passed mention_branch_def Let_def
      mention_dispatch_immediate await_and_reply_thrown)

text \<open>
  C4, at a concrete input. Batching is off and the backend rejects. For a guild message
  that mentions the agent, the rejection of line 334 leaves the handler: that branch
  has no \<open>try\<close>. For a generic message the same rejection is caught and logged by
  \<open>processAndSendMessage\<close>.
\<close>

theorem mention_path_lets_rejection_escape:
  "r_thrown (messageCreate immediate_config backend_fails 0 mention_message initial_state) =
     Some BackendError
   \<and> r_effects (messageCreate immediate_config backend_fails 0 mention_message initial_state) =
     [SendTyping ''c1'',
      SendMessage \<lparr>call_message = mention_message, call_messageType = MENTION,
        call_canRespond = True, call_customContent = None\<rparr>]
   \<and> r_thrown (messageCreate immediate_config backend_fails 0 example_message initial_state) =
     None
   \<and> r_effects (messageCreate immediate_config backend_fails 0 example_message initial_state) =
     [SendMessage \<lparr>call_message = example_message, call_messageType = GENERIC,
        call_canRespond = True, call_customContent = None\<rparr>,
      LogError BackendError]"
  by code_simp

section \<open>Replies to the agent\<close>

text \<open>
  The quotation of line 320: a text of at most 100 code units is kept, a longer one
  becomes its first 97 code units and three dots, 100 in all.
\<close>

lemma truncateMessage_short:
  "length msg \<le> 100 \<Longrightarrow> truncateMessage msg MESSAGE_REPLY_TRUNCATE_LENGTH = msg"
  by (simp add: truncateMessage_def MESSAGE_REPLY_TRUNCATE_LENGTH_def)

lemma truncateMessage_long:
  assumes "100 < length msg"
  shows "truncateMessage msg MESSAGE_REPLY_TRUNCATE_LENGTH = take 97 msg @ ''...''"
    and "length (truncateMessage msg MESSAGE_REPLY_TRUNCATE_LENGTH) = 100"
  using assms by (simp_all add: truncateMessage_def MESSAGE_REPLY_TRUNCATE_LENGTH_def)

text \<open>
  With batching off, every reply to the agent's own message is labelled REPLY and
  \<open>msgContent\<close> holds the quotation, while the one backend call carries the message
  as it arrived and no payload.
\<close>

lemma reply_to_agent_call:
  assumes "passes_filters cfg m" and "in_guild m" and "RESPOND_TO_MENTIONS cfg"
    and "reference m = Some ref" and "truthy (messageId ref)"
    and "\<not> MESSAGE_BATCH_ENABLED cfg"
    and "typing_result env = None" and "fetch_result env = Inr orig"
    and "Some (original_author_id orig) = client_user_id cfg"
  shows "r_label (messageCreate cfg env now m s) = Some REPLY"
    and "r_msgContent (messageCreate cfg env now m s) =
           Some (''[Replying to previous message: \"''
                 @ truncateMessage (original_content orig) MESSAGE_REPLY_TRUNCATE_LENGTH
                 @ ''\"] '' @ content m)"
    and "backend_calls (r_effects (messageCreate cfg env now m s)) =
           [\<lparr>call_message = m, call_messageType = REPLY,
             call_canRespond = shouldRespondInChannel cfg (channel_id m),
             call_customContent = None\<rparr>]"
  using assms
  by (simp_all add: messageCreate_passed mention_branch_def Let_def reply_label_def
      mention_dispatch_immediate)

text \<open>
  C6, at a concrete input. A guild message replies to the agent's message \<open>hi\<close> with
  the text \<open>thanks\<close>. The label is REPLY and the local \<open>msgContent\<close> holds the
  quotation and the text, but no later statement reads it: the backend is called with
  the message as it arrived and no payload, and with batching on the batch line
  carries the text alone.
\<close>

theorem reply_quotation_never_sent:
  "r_label (messageCreate immediate_config all_succeed 0 reply_to_agent initial_state) =
     Some REPLY
   \<and> r_msgContent (messageCreate immediate_config all_succeed 0 reply_to_agent initial_state) =
     Some ''[Replying to previous message: \"hi\"] thanks''
   \<and> backend_calls (r_effects
        (messageCreate immediate_config all_succeed 0 reply_to_agent initial_state)) =
     [\<lparr>call_message = reply_to_agent, call_messageType = REPLY, call_canRespond = True,
       call_customContent = None\<rparr>]
   \<and> content reply_to_agent = ''thanks''
   \<and> backend_calls (r_effects
        (messageCreate (example_config\<lparr>MESSAGE_BATCH_SIZE := Some 1\<rparr>) all_succeed 0
           reply_to_agent initial_state)) =
     [\<lparr>call_message = reply_to_agent, call_messageType = REPLY, call_canRespond = True,
       call_customContent =
         Some (''[Batch of 1 messages from #general]'' @ newline
               @ ''1. [ann (id=u1) replied to you] thanks'')\<rparr>]"
  by code_simp

section \<open>The channel policy\<close>

lemma shouldRespondInChannel_policy:
  "shouldRespondInChannel cfg channelId =
     (\<not> truthy (RESPONSE_CHANNEL_ID cfg) \<or> RESPONSE_CHANNEL_ID cfg = Some channelId)"
  by (auto simp: shouldRespondInChannel_def)

end
